theory Spec2Isabelle
  imports Main
begin

section \<open>JavaScript values used by the server\<close>

text \<open>
  A JavaScript number that the server computes with is either \<open>NaN\<close> (what
  \<open>parseInt\<close> gives for a string with no digits) or an integer. \<open>Num i\<close> carries the
  mathematical integer; it is the same as the double the runtime holds while magnitudes stay
  below \<open>2 ^ 53\<close>, which covers every file size and byte offset.
\<close>

datatype jsnum = NaN | Num int

fun isNaN :: "jsnum \<Rightarrow> bool" where
  "isNaN NaN = True"
| "isNaN (Num _) = False"

text \<open>\<open>a - b\<close> and \<open>a > b\<close> on numbers: any operand \<open>NaN\<close> gives \<open>NaN\<close>, respectively
  \<open>false\<close>.\<close>

fun js_sub :: "jsnum \<Rightarrow> jsnum \<Rightarrow> jsnum" where
  "js_sub (Num a) (Num b) = Num (a - b)"
| "js_sub _ _ = NaN"

fun js_gt :: "jsnum \<Rightarrow> jsnum \<Rightarrow> bool" where
  "js_gt (Num a) (Num b) = (a > b)"
| "js_gt _ _ = False"

text \<open>The exceptions a request handler can raise: \<open>TypeError\<close> for a property read on
  \<open>null\<close> or \<open>undefined\<close> (or a non-string handed to \<open>path.join\<close>), \<open>SystemError\<close> for a
  failing \<open>fs.statSync\<close>.\<close>

datatype error = TypeError | SystemError

subsection \<open>Numbers to strings\<close>

definition digit_char :: "nat \<Rightarrow> char" where
  "digit_char d = ''0123456789abcdef'' ! d"

function digits_of :: "nat \<Rightarrow> nat \<Rightarrow> string" where
  "digits_of b n =
     (if b < 2 \<or> n < b then [digit_char n]
      else digits_of b (n div b) @ [digit_char (n mod b)])"
  by pat_completeness auto
termination
  by (relation "measure snd") auto

declare digits_of.simps [simp del]

text \<open>\<open>Number.prototype.toString(radix)\<close> on an integer.\<close>

definition toString_radix :: "nat \<Rightarrow> int \<Rightarrow> string" where
  "toString_radix b i =
     (if i < 0 then ''-'' @ digits_of b (nat (- i)) else digits_of b (nat i))"

text \<open>What a template literal \<open>`${n}`\<close> writes for a number.\<close>

fun js_show :: "jsnum \<Rightarrow> string" where
  "js_show NaN = ''NaN''"
| "js_show (Num i) = toString_radix 10 i"

subsection \<open>Strings\<close>

text \<open>\<open>String.prototype.indexOf\<close>: the offset of the first occurrence, or \<open>-1\<close>.\<close>

fun indexOf :: "string \<Rightarrow> string \<Rightarrow> int" where
  "indexOf [] pat = (if pat = [] then 0 else - 1)"
| "indexOf (c # cs) pat =
     (if take (length pat) (c # cs) = pat then 0
      else (let r = indexOf cs pat in if r < 0 then - 1 else r + 1))"

text \<open>\<open>s.substring(i)\<close> for an offset \<open>i\<close> (negative offsets count as 0).\<close>

definition substring :: "string \<Rightarrow> int \<Rightarrow> string" where
  "substring s i = drop (nat i) s"

definition lower_char :: "char \<Rightarrow> char" where
  "lower_char c =
     (case map_of (zip ''ABCDEFGHIJKLMNOPQRSTUVWXYZ'' ''abcdefghijklmnopqrstuvwxyz'') c of
        Some d \<Rightarrow> d
      | None \<Rightarrow> c)"

definition toLowerCase :: "string \<Rightarrow> string" where
  "toLowerCase s = map lower_char s"

text \<open>Truthiness of a header value: \<open>undefined\<close> and the empty string are falsy.\<close>

fun truthy :: "string option \<Rightarrow> bool" where
  "truthy None = False"
| "truthy (Some s) = (s \<noteq> [])"

section \<open>Requests, responses and streams\<close>

text \<open>
  \<open>req.headers\<close> maps lower-cased header names to values. The response keeps its status
  code (200 until set), its headers under lower-cased names (as \<open>res._headers\<close> does), and
  what ended it: \<open>body = None\<close> while \<open>res.end\<close> has not been called and nothing is piped.
\<close>

record request =
  url :: string
  req_headers :: "string \<rightharpoonup> string"

text \<open>A stream is described by how it was created: \<open>fs.createReadStream\<close> on a path with
  optional \<open>{start, end}\<close>, possibly piped through \<open>zlib.createGzip()\<close> or
  \<open>zlib.createDeflate()\<close>.\<close>

datatype stream =
    ReadStream string "(jsnum \<times> jsnum) option"
  | Gzip stream
  | Deflate stream

text \<open>How a response was finished: \<open>res.end()\<close>, \<open>res.end(text)\<close>, \<open>res.end(err)\<close> with
  the error object of a failed filesystem call, or a stream piped into it.\<close>

datatype body =
    Empty
  | Text string
  | ErrorObject
  | Piped stream

record response =
  statusCode :: nat
  headers :: "string \<rightharpoonup> string"
  body :: "body option"

text \<open>The response object \<open>http.createServer\<close> hands to the request listener.\<close>

definition ServerResponse :: response where
  "ServerResponse = \<lparr>statusCode = 200, headers = Map.empty, body = None\<rparr>"

definition setHeader :: "string \<Rightarrow> string \<Rightarrow> response \<Rightarrow> response" where
  "setHeader name v res = res\<lparr>headers := (headers res)(toLowerCase name \<mapsto> v)\<rparr>"

definition writeHead :: "nat \<Rightarrow> (string \<times> string) list \<Rightarrow> response \<Rightarrow> response" where
  "writeHead code hs res = fold (\<lambda>(k, v). setHeader k v) hs (res\<lparr>statusCode := code\<rparr>)"

definition end_response :: "body \<Rightarrow> response \<Rightarrow> response" where
  "end_response b res = res\<lparr>body := Some b\<rparr>"

definition pipe :: "stream \<Rightarrow> response \<Rightarrow> response" where
  "pipe s res = res\<lparr>body := Some (Piped s)\<rparr>"

section \<open>Range Calculator\<close>

definition isDigit :: "char \<Rightarrow> bool" where
  "isDigit c \<longleftrightarrow> c \<in> set ''0123456789''"

definition digit_val :: "char \<Rightarrow> int" where
  "digit_val c = int (of_char c) - 48"

text \<open>The number a string of decimal digits writes.\<close>

definition decimal :: "string \<Rightarrow> int" where
  "decimal ds = foldl (\<lambda>a c. 10 * a + digit_val c) 0 ds"

text \<open>\<open>parseInt\<close> on a string of decimal digits (the only strings the capture groups of
  \<open>getRange\<close> can hold): the leading digits are read, none gives \<open>NaN\<close>.\<close>

definition parseInt :: "string \<Rightarrow> jsnum" where
  "parseInt s =
     (let ds = takeWhile isDigit s
      in if ds = [] then NaN else Num (decimal ds))"

text \<open>
  \<open>/bytes=([0-9]*)-([0-9]*)/\<close> tried at the start of a string. Both groups are greedy, and
  a shorter first group would leave a digit where \<open>-\<close> is required, so the attempt succeeds
  exactly when the longest run of digits after \<open>bytes=\<close> is followed by \<open>-\<close>.
\<close>

definition match_here :: "string \<Rightarrow> (string \<times> string) option" where
  "match_here s =
     (if take 6 s = ''bytes='' then
        (let rest = drop 6 s; g1 = takeWhile isDigit rest
         in case dropWhile isDigit rest of
              [] \<Rightarrow> None
            | c # after \<Rightarrow>
                if c = CHR ''-'' then Some (g1, takeWhile isDigit after) else None)
      else None)"

text \<open>\<open>rangeText.match(...)\<close>: the leftmost position where the pattern matches; \<open>None\<close> is
  the \<open>null\<close> of no match.\<close>

fun match_range :: "string \<Rightarrow> (string \<times> string) option" where
  "match_range [] = match_here []"
| "match_range (c # cs) =
     (case match_here (c # cs) of
        Some g \<Rightarrow> Some g
      | None \<Rightarrow> match_range cs)"

record byte_range =
  range_start :: jsnum
  range_end :: jsnum

definition getRange :: "string \<Rightarrow> int \<Rightarrow> error + byte_range" where
  "getRange rangeText totalSize =
     (case match_range rangeText of
        None \<Rightarrow> Inl TypeError
      | Some (g1, g2) \<Rightarrow>
          (let start = parseInt g1; end = parseInt g2
           in if isNaN start \<and> \<not> isNaN end then
                Inr \<lparr>range_start = js_sub (Num totalSize) end,
                     range_end = Num (totalSize - 1)\<rparr>
              else if \<not> isNaN start \<and> isNaN end then
                Inr \<lparr>range_start = start, range_end = Num (totalSize - 1)\<rparr>
              else Inr \<lparr>range_start = start, range_end = end\<rparr>))"

text \<open>\<open>rangeHandler\<close> returns the stream it opened, or \<open>null\<close> (here \<open>None\<close>) after it has
  answered 416.\<close>

definition rangeHandler ::
  "string \<Rightarrow> string \<Rightarrow> int \<Rightarrow> response \<Rightarrow> error + (stream option \<times> response)" where
  "rangeHandler pathName rangeText totalSize res =
     (case getRange rangeText totalSize of
        Inl e \<Rightarrow> Inl e
      | Inr rng \<Rightarrow>
          if js_gt (range_start rng) (range_end rng)
             \<or> js_gt (range_start rng) (Num totalSize)
             \<or> js_gt (range_end rng) (Num totalSize)
          then
            Inr (None,
                 end_response Empty
                   (setHeader ''Content-Range'' (''bytes */'' @ js_show (Num totalSize))
                      (res\<lparr>statusCode := 416\<rparr>)))
          else
            Inr (Some (ReadStream pathName (Some (range_start rng, range_end rng))),
                 setHeader ''Content-Range''
                   (''bytes '' @ js_show (range_start rng) @ ''-''
                      @ js_show (range_end rng) @ ''/'' @ js_show (Num totalSize))
                   (res\<lparr>statusCode := 206\<rparr>)))"

section \<open>Collaborators: configuration, platform library, filesystem\<close>

text \<open>
  The fields the constructor of \<open>StaticServer\<close> fills from the command line and
  \<open>config/default.json\<close>. \<open>zipMatch\<close> is the regular expression built from the configured
  pattern, taken as the predicate "this string matches".
\<close>

record StaticServer =
  port :: nat
  root :: string
  indexPage :: string
  enableCacheControl :: bool
  enableExpires :: bool
  enableETag :: bool
  enableLastModified :: bool
  maxAge :: int
  zipMatch :: "string \<Rightarrow> bool"

text \<open>
  The functions of the platform library that the handlers call, as parameters:
  \<open>path.join\<close>, \<open>path.normalize\<close>, \<open>path.extname\<close>, the \<open>pathname\<close> of \<open>url.parse\<close>
  (\<open>None\<close> for \<open>null\<close>), \<open>Date.prototype.toUTCString\<close> on a time in milliseconds, and
  \<open>Date.now()\<close>.
\<close>

record node =
  path_join :: "string \<Rightarrow> string \<Rightarrow> string"
  path_normalize :: "string \<Rightarrow> string"
  path_extname :: "string \<Rightarrow> string"
  url_pathname :: "string \<Rightarrow> string option"
  toUTCString :: "int \<Rightarrow> string"
  date_now :: int

text \<open>\<open>fs.Stats\<close>: the size, the modification time in milliseconds, and \<open>isDirectory()\<close>.\<close>

record Stats =
  stat_size :: int
  stat_mtime :: int
  stat_isDirectory :: bool

text \<open>The filesystem at the time of the request: \<open>fs.stat\<close> and \<open>fs.statSync\<close> (\<open>None\<close> is
  the error), \<open>fs.existsSync\<close> and \<open>fs.readdir\<close>.\<close>

record filesystem =
  fs_stat :: "string \<Rightarrow> Stats option"
  fs_existsSync :: "string \<Rightarrow> bool"
  fs_readdir :: "string \<Rightarrow> string list option"

section \<open>MIME Resolver\<close>

definition mimeTypes :: "(string \<times> string) list" where
  "mimeTypes =
     [(''css'', ''text/css''),
      (''gif'', ''image/gif''),
      (''html'', ''text/html''),
      (''ico'', ''image/x-icon''),
      (''jpeg'', ''image/jpeg''),
      (''png'', ''image/png''),
      (''jpg'', ''image/jpg''),
      (''txt'', ''text/plain''),
      (''json'', ''application/json''),
      (''js'', ''text/javascript'')]"

text \<open>\<open>ext.split('.').pop()\<close>: what follows the last dot, the whole string when there is
  none.\<close>

definition split_pop :: "string \<Rightarrow> string" where
  "split_pop s = rev (takeWhile (\<lambda>c. c \<noteq> CHR ''.'') (rev s))"

text \<open>\<open>mimeTypes[ext] || mimeTypes['txt']\<close>, the table being read for its own ten keys (an
  extension that names a member of \<open>Object.prototype\<close> is outside the model).\<close>

definition mime_lookup :: "node \<Rightarrow> string \<Rightarrow> string" where
  "mime_lookup nd pathName =
     (let ext = split_pop (path_extname nd pathName)
      in case map_of mimeTypes ext of
           Some t \<Rightarrow> t
         | None \<Rightarrow> ''text/plain'')"

section \<open>Content Transfer Engine\<close>

definition shouldCompress :: "StaticServer \<Rightarrow> node \<Rightarrow> string \<Rightarrow> bool" where
  "shouldCompress cfg nd pathName = zipMatch cfg (path_extname nd pathName)"

definition isWordChar :: "char \<Rightarrow> bool" where
  "isWordChar c \<longleftrightarrow>
     c \<in> set ''abcdefghijklmnopqrstuvwxyzABCDEFGHIJKLMNOPQRSTUVWXYZ0123456789_''"

text \<open>\<open>\b\<close> between two neighbouring characters (\<open>None\<close> at either end of the string):
  exactly one side is a word character.\<close>

definition boundary :: "char option \<Rightarrow> char option \<Rightarrow> bool" where
  "boundary p n \<longleftrightarrow>
     (case p of None \<Rightarrow> False | Some c \<Rightarrow> isWordChar c)
       \<noteq> (case n of None \<Rightarrow> False | Some c \<Rightarrow> isWordChar c)"

definition first_char :: "string \<Rightarrow> char option" where
  "first_char s = (case s of [] \<Rightarrow> None | c # _ \<Rightarrow> Some c)"

text \<open>\<open>/\b(w1|w2|...)\b/\<close> tried at one position, \<open>prev\<close> being the character before it.\<close>

definition word_here :: "string list \<Rightarrow> char option \<Rightarrow> string \<Rightarrow> bool" where
  "word_here alts prev s \<longleftrightarrow>
     boundary prev (first_char s)
     \<and> list_ex
         (\<lambda>w. take (length w) s = w
               \<and> boundary (if w = [] then prev else Some (last w))
                   (first_char (drop (length w) s)))
         alts"

fun word_search :: "string list \<Rightarrow> char option \<Rightarrow> string \<Rightarrow> bool" where
  "word_search alts prev [] = word_here alts prev []"
| "word_search alts prev (c # cs) =
     (word_here alts prev (c # cs) \<or> word_search alts (Some c) cs)"

text \<open>\<open>acceptEncoding.match(/\b(w1|w2|...)\b/)\<close> is truthy.\<close>

definition match_word :: "string list \<Rightarrow> string \<Rightarrow> bool" where
  "match_word alts s = word_search alts None s"

text \<open>When no branch of \<open>compressHandler\<close> is taken it returns \<open>undefined\<close>, and the
  \<open>readStream.pipe(res)\<close> of its caller raises.\<close>

definition compressHandler ::
  "stream \<Rightarrow> request \<Rightarrow> response \<Rightarrow> error + (stream \<times> response)" where
  "compressHandler readStream req res =
     (case req_headers req ''accept-encoding'' of
        None \<Rightarrow> Inr (readStream, res)
      | Some acceptEncoding \<Rightarrow>
          if acceptEncoding = [] \<or> \<not> match_word [''gzip'', ''deflate''] acceptEncoding then
            Inr (readStream, res)
          else if match_word [''gzip''] acceptEncoding then
            Inr (Gzip readStream, setHeader ''Content-Encoding'' ''gzip'' res)
          else if match_word [''deflate''] acceptEncoding then
            Inr (Deflate readStream, setHeader ''Content-Encoding'' ''deflate'' res)
          else Inl TypeError)"

text \<open>\<open>stat\<close> is \<open>None\<close> where the caller passes \<open>null\<close>; \<open>stat.size\<close> is read only when the
  request has a truthy \<open>Range\<close> header.\<close>

definition respondFile ::
  "StaticServer \<Rightarrow> node \<Rightarrow> Stats option \<Rightarrow> string \<Rightarrow> request \<Rightarrow> response
     \<Rightarrow> error + response" where
  "respondFile cfg nd stat pathName req res =
     (let res1 = setHeader ''Content-Type'' (mime_lookup nd pathName) res;
          res2 = setHeader ''Accept-Ranges'' ''bytes'' res1;
          opened =
            (case req_headers req ''range'' of
               None \<Rightarrow> Inr (Some (ReadStream pathName None), res2)
             | Some rangeText \<Rightarrow>
                 if rangeText = [] then Inr (Some (ReadStream pathName None), res2)
                 else
                   (case stat of
                      None \<Rightarrow> Inl TypeError
                    | Some st \<Rightarrow> rangeHandler pathName rangeText (stat_size st) res2))
      in case opened of
           Inl e \<Rightarrow> Inl e
         | Inr (None, res3) \<Rightarrow> Inr res3
         | Inr (Some readStream, res3) \<Rightarrow>
             (case (if shouldCompress cfg nd pathName then compressHandler readStream req res3
                    else Inr (readStream, res3)) of
                Inl e \<Rightarrow> Inl e
              | Inr (readStream', res4) \<Rightarrow> Inr (pipe readStream' res4)))"

section \<open>Freshness Evaluator\<close>

definition generateETag :: "Stats \<Rightarrow> string" where
  "generateETag stat =
     (let mtime = toString_radix 16 (stat_mtime stat);
          size = toString_radix 10 (stat_size stat)
      in ''W/'' @ [CHR 0x22] @ size @ ''-'' @ mtime @ [CHR 0x22])"

definition setFreshHeaders :: "StaticServer \<Rightarrow> node \<Rightarrow> Stats \<Rightarrow> response \<Rightarrow> response" where
  "setFreshHeaders cfg nd stat res =
     (let lastModified = toUTCString nd (stat_mtime stat);
          res1 = (if enableLastModified cfg then setHeader ''Last-Modified'' lastModified res
                  else res);
          res2 = (if enableCacheControl cfg
                  then setHeader ''Cache-Control''
                         (''public, max-age='' @ toString_radix 10 (maxAge cfg)) res1
                  else res1);
          res3 = (if enableETag cfg then setHeader ''ETag'' (generateETag stat) res2 else res2)
      in if enableExpires cfg
         then setHeader ''Expires'' (toUTCString nd (date_now nd + maxAge cfg * 1000)) res3
         else res3)"

definition isFresh :: "(string \<rightharpoonup> string) \<Rightarrow> (string \<rightharpoonup> string) \<Rightarrow> bool" where
  "isFresh reqHeaders resHeaders =
     (let noneMatch = reqHeaders ''if-none-match'';
          lastModified = reqHeaders ''if-modified-since''
      in if \<not> truthy noneMatch \<and> \<not> truthy lastModified then False
         else if truthy noneMatch \<and> noneMatch \<noteq> resHeaders ''etag'' then False
         else if truthy lastModified \<and> lastModified \<noteq> resHeaders ''last-modified'' then False
         else True)"

definition respondNotModified :: "response \<Rightarrow> response" where
  "respondNotModified res = end_response Empty (res\<lparr>statusCode := 304\<rparr>)"

definition respondError :: "response \<Rightarrow> response" where
  "respondError res = end_response ErrorObject (writeHead 500 [] res)"

definition respond ::
  "StaticServer \<Rightarrow> node \<Rightarrow> filesystem \<Rightarrow> string \<Rightarrow> request \<Rightarrow> response
     \<Rightarrow> error + response" where
  "respond cfg nd fs pathName req res =
     (case fs_stat fs pathName of
        Some stat \<Rightarrow>
          (let res1 = setFreshHeaders cfg nd stat res
           in if isFresh (req_headers req) (headers res1) then Inr (respondNotModified res1)
              else respondFile cfg nd (Some stat) pathName req res1)
      | None \<Rightarrow> Inr (respondError res))"

section \<open>Path Router\<close>

definition hasTrailingSlash :: "string \<Rightarrow> bool" where
  "hasTrailingSlash u \<longleftrightarrow> u \<noteq> [] \<and> last u = CHR ''/''"

definition respondNotFound :: "request \<Rightarrow> response \<Rightarrow> response" where
  "respondNotFound req res =
     end_response
       (Text (''<h1>Not Found</h1><p>The requested URL '' @ url req
              @ '' was not found on this server.</p>''))
       (writeHead 400 [(''Content-Type'', ''text/html'')] res)"

text \<open>One round of the \<open>files.forEach\<close> of the directory listing, on the content so far.
  \<open>requestPath\<close> is \<open>None\<close> when \<open>url.parse\<close> gave no pathname; \<open>path.join\<close> rejects it.\<close>

definition listing_entry ::
  "node \<Rightarrow> filesystem \<Rightarrow> string \<Rightarrow> string option \<Rightarrow> string \<Rightarrow> string \<Rightarrow> error + string" where
  "listing_entry nd fs pathName requestPath content file =
     (case requestPath of
        None \<Rightarrow> Inl TypeError
      | Some rp \<Rightarrow>
          (let filePath = path_join nd rp file
           in case fs_stat fs (path_join nd pathName file) of
                None \<Rightarrow> Inl SystemError
              | Some stat \<Rightarrow>
                  (let filePath' = (if stat_isDirectory stat then path_join nd filePath ''/''
                                    else filePath);
                       file' = (if stat_isDirectory stat then path_join nd file ''/'' else file)
                   in Inr (content @ ''<p><a href='' @ [CHR 0x27] @ filePath' @ [CHR 0x27]
                           @ ''>'' @ file' @ ''</a></a></p>''))))"

fun listing ::
  "node \<Rightarrow> filesystem \<Rightarrow> string \<Rightarrow> string option \<Rightarrow> string \<Rightarrow> string list \<Rightarrow> error + string"
  where
  "listing nd fs pathName requestPath content [] = Inr content"
| "listing nd fs pathName requestPath content (file # files) =
     (case listing_entry nd fs pathName requestPath content file of
        Inl e \<Rightarrow> Inl e
      | Inr content' \<Rightarrow> listing nd fs pathName requestPath content' files)"

definition respondDirectory ::
  "StaticServer \<Rightarrow> node \<Rightarrow> filesystem \<Rightarrow> string \<Rightarrow> request \<Rightarrow> response
     \<Rightarrow> error + response" where
  "respondDirectory cfg nd fs pathName req res =
     (let indexPagePath = path_join nd pathName (indexPage cfg)
      in if fs_existsSync fs indexPagePath then respond cfg nd fs indexPagePath req res
         else
           (case fs_readdir fs pathName of
              Some files \<Rightarrow>
                (let requestPath = url_pathname nd (url req);
                     content = ''<h1>Index of ''
                       @ (case requestPath of None \<Rightarrow> ''null'' | Some rp \<Rightarrow> rp) @ '':</h1>''
                 in case listing nd fs pathName requestPath content files of
                      Inl e \<Rightarrow> Inl e
                    | Inr content' \<Rightarrow>
                        Inr (end_response (Text content')
                               (writeHead 200 [(''Content-Type'', ''text/html'')] res)))
            | None \<Rightarrow> Inr (end_response ErrorObject (writeHead 500 [] res))))"

definition respondRedirect :: "request \<Rightarrow> response \<Rightarrow> response" where
  "respondRedirect req res =
     (let location = url req @ ''/''
      in end_response
           (Text (''Redirecting to <a href='' @ [CHR 0x27] @ location @ [CHR 0x27] @ ''>''
                  @ location @ ''</a>''))
           (writeHead 301 [(''Location'', location), (''Content-type'', ''text/html'')] res))"

text \<open>\<open>hasTrailingSlash(requestedPath)\<close> reads \<open>length\<close> of the pathname and raises on
  \<open>null\<close>.\<close>

definition routeHandler ::
  "StaticServer \<Rightarrow> node \<Rightarrow> filesystem \<Rightarrow> string \<Rightarrow> request \<Rightarrow> response
     \<Rightarrow> error + response" where
  "routeHandler cfg nd fs pathName req res =
     (if indexOf pathName ''article/'' \<ge> 0 \<or> indexOf pathName ''homepage'' \<ge> 0 then
        respondFile cfg nd None (path_join nd (root cfg) (indexPage cfg)) req res
      else
        (case fs_stat fs pathName of
           Some stat \<Rightarrow>
             (case url_pathname nd (url req) of
                None \<Rightarrow> Inl TypeError
              | Some requestedPath \<Rightarrow>
                  if hasTrailingSlash requestedPath \<and> stat_isDirectory stat then
                    respondDirectory cfg nd fs pathName req res
                  else if stat_isDirectory stat then Inr (respondRedirect req res)
                  else respond cfg nd fs pathName req res)
         | None \<Rightarrow> Inr (respondNotFound req res)))"

section \<open>Server Loop\<close>

text \<open>What the request listener of \<open>start\<close> leaves in \<open>req.url\<close>: the URL cut to begin at
  \<open>static\<close> when that occurs at an offset above 0.\<close>

definition rewrite_url :: "string \<Rightarrow> string" where
  "rewrite_url u =
     (if indexOf u ''static'' > 0 then substring u (indexOf u ''static'') else u)"

text \<open>The request listener of \<open>start\<close>: it overwrites \<open>req.url\<close> before routing, on the
  response object the server created.\<close>

definition start :: "StaticServer \<Rightarrow> node \<Rightarrow> filesystem \<Rightarrow> request \<Rightarrow> error + response" where
  "start cfg nd fs req =
     (let req1 = req\<lparr>url := rewrite_url (url req)\<rparr>;
          pathName = path_join nd (root cfg) (path_normalize nd (url req1))
      in routeHandler cfg nd fs pathName req1 ServerResponse)"

section \<open>Notions of the specification\<close>

text \<open>"The request's \<open>Accept-Encoding\<close> offers \<open>w\<close>": the header is there and
  \<open>/\bw\b/\<close> matches its value.\<close>

definition offers :: "string \<Rightarrow> request \<Rightarrow> bool" where
  "offers w req =
     (case req_headers req ''accept-encoding'' of
        None \<Rightarrow> False
      | Some acceptEncoding \<Rightarrow> match_word [w] acceptEncoding)"

text \<open>The SPA-fallback condition of the router on a resolved path.\<close>

definition spa_fallback :: "string \<Rightarrow> bool" where
  "spa_fallback pathName \<longleftrightarrow>
     indexOf pathName ''article/'' \<ge> 0 \<or> indexOf pathName ''homepage'' \<ge> 0"

section \<open>A sample installation\<close>

text \<open>
  Concrete collaborators for the worked examples below. The path and URL functions agree
  with the platform's on paths without \<open>.\<close> or \<open>..\<close> segments and on URLs that are a path
  with an optional query; \<open>toUTCString\<close> is tabulated at the three times the examples format
  (the files' modification time, the server's clock, and the clock plus \<open>maxAge\<close> seconds).
\<close>

fun collapse_slashes :: "string \<Rightarrow> string" where
  "collapse_slashes (a # b # cs) =
     (if a = CHR ''/'' \<and> b = CHR ''/'' then collapse_slashes (b # cs)
      else a # collapse_slashes (b # cs))"
| "collapse_slashes cs = cs"

definition sample_extname :: "string \<Rightarrow> string" where
  "sample_extname p =
     (let base = rev (takeWhile (\<lambda>c. c \<noteq> CHR ''/'') (rev p))
      in if base = [] \<or> CHR ''.'' \<notin> set (tl base) then [] else ''.'' @ split_pop base)"

definition sample_pathname :: "string \<Rightarrow> string option" where
  "sample_pathname u =
     (let p = takeWhile (\<lambda>c. c \<noteq> CHR ''?'' \<and> c \<noteq> CHR ''#'') u
      in if p = [] then None else Some p)"

definition sample_toUTCString :: "int \<Rightarrow> string" where
  "sample_toUTCString ms =
     (case map_of [(1530403200000, ''Sun, 01 Jul 2018 00:00:00 GMT''),
                   (1541214000000, ''Sat, 03 Nov 2018 03:00:00 GMT''),
                   (1541214600000, ''Sat, 03 Nov 2018 03:10:00 GMT'')] ms of
        Some d \<Rightarrow> d
      | None \<Rightarrow> ''Invalid Date'')"

definition sample_node :: node where
  "sample_node =
     \<lparr>path_join = (\<lambda>a b. collapse_slashes (a @ ''/'' @ b)),
      path_normalize = collapse_slashes,
      path_extname = sample_extname,
      url_pathname = sample_pathname,
      toUTCString = sample_toUTCString,
      date_now = 1541214000000\<rparr>"

definition sample_server :: StaticServer where
  "sample_server =
     \<lparr>port = 8080, root = ''/www'', indexPage = ''index.html'',
      enableCacheControl = True, enableExpires = True, enableETag = True,
      enableLastModified = True, maxAge = 600,
      zipMatch = (\<lambda>ext. ext \<in> set [''.css'', ''.js'', ''.html''])\<rparr>"

definition sample_files :: "(string \<times> Stats) list" where
  "sample_files =
     [(''/www'', \<lparr>stat_size = 4096, stat_mtime = 1530403200000, stat_isDirectory = True\<rparr>),
      (''/www/index.html'',
       \<lparr>stat_size = 120, stat_mtime = 1530403200000, stat_isDirectory = False\<rparr>),
      (''/www/static'',
       \<lparr>stat_size = 4096, stat_mtime = 1530403200000, stat_isDirectory = True\<rparr>),
      (''/www/static/app.js'',
       \<lparr>stat_size = 2048, stat_mtime = 1530403200000, stat_isDirectory = False\<rparr>)]"

definition sample_fs :: filesystem where
  "sample_fs =
     \<lparr>fs_stat = map_of sample_files,
      fs_existsSync = (\<lambda>p. map_of sample_files p \<noteq> None),
      fs_readdir = map_of [(''/www'', [''index.html'', ''static'']),
                           (''/www/static'', [''app.js''])]\<rparr>"

section \<open>Basic facts\<close>

lemma lower_names:
  "toLowerCase ''Content-Range'' = ''content-range''"
  "toLowerCase ''Content-Type'' = ''content-type''"
  "toLowerCase ''Content-type'' = ''content-type''"
  "toLowerCase ''Accept-Ranges'' = ''accept-ranges''"
  "toLowerCase ''Content-Encoding'' = ''content-encoding''"
  "toLowerCase ''Last-Modified'' = ''last-modified''"
  "toLowerCase ''Cache-Control'' = ''cache-control''"
  "toLowerCase ''ETag'' = ''etag''"
  "toLowerCase ''Expires'' = ''expires''"
  "toLowerCase ''Location'' = ''location''"
  by (simp_all add: toLowerCase_def lower_char_def)

text \<open>\<open>indexOf\<close> is non-negative exactly on strings that contain the pattern.\<close>

lemma indexOf_nonneg_iff: "indexOf s p \<ge> 0 \<longleftrightarrow> (\<exists>xs ys. s = xs @ p @ ys)"
proof (induction s)
  case Nil
  then show ?case by auto
next
  case (Cons c cs)
  show ?case
  proof (cases "take (length p) (c # cs) = p")
    case True
    then have "c # cs = [] @ p @ drop (length p) (c # cs)"
      by (metis append_Nil append_take_drop_id)
    with True show ?thesis by (metis indexOf.simps(2) order_refl)
  next
    case False
    have "(\<exists>xs ys. c # cs = xs @ p @ ys) \<longleftrightarrow> (\<exists>xs ys. cs = xs @ p @ ys)"
    proof
      assume "\<exists>xs ys. c # cs = xs @ p @ ys"
      then obtain xs ys where e: "c # cs = xs @ p @ ys" by blast
      show "\<exists>xs ys. cs = xs @ p @ ys"
      proof (cases xs)
        case Nil
        with e have "take (length p) (c # cs) = p" by simp
        with False show ?thesis by simp
      next
        case (Cons x xs')
        with e have "cs = xs' @ p @ ys" by simp
        then show ?thesis by blast
      qed
    next
      assume "\<exists>xs ys. cs = xs @ p @ ys"
      then obtain xs ys where "cs = xs @ p @ ys" by blast
      then have "c # cs = (c # xs) @ p @ ys" by simp
      then show "\<exists>xs ys. c # cs = xs @ p @ ys" by blast
    qed
    moreover have "indexOf (c # cs) p \<ge> 0 \<longleftrightarrow> indexOf cs p \<ge> 0"
      using False by (simp add: Let_def)
    ultimately show ?thesis using Cons.IH by simp
  qed
qed


lemma spa_fallback_substring:
  "spa_fallback pathName \<longleftrightarrow>
     (\<exists>xs ys. pathName = xs @ ''article/'' @ ys) \<or> (\<exists>xs ys. pathName = xs @ ''homepage'' @ ys)"
  unfolding spa_fallback_def indexOf_nonneg_iff ..

text \<open>The decimal numeral of a number is a non-empty string of digits that reads back as
  the number.\<close>

lemma decimal_snoc: "decimal (ds @ [c]) = 10 * decimal ds + digit_val c"
  by (simp add: decimal_def)

lemma digit_char_decimal:
  assumes "n < 10"
  shows "isDigit (digit_char n)" and "digit_val (digit_char n) = int n"
proof -
  from assms have "n \<in> {0, 1, 2, 3, 4, 5, 6, 7, 8, 9}" by auto
  then show "isDigit (digit_char n)" and "digit_val (digit_char n) = int n"
    by (auto simp: digit_char_def isDigit_def digit_val_def)
qed

lemma digits_of_decimal:
  "digits_of 10 n \<noteq> [] \<and> (\<forall>c\<in>set (digits_of 10 n). isDigit c)
     \<and> decimal (digits_of 10 n) = int n"
proof (induction n rule: less_induct)
  case (less n)
  show ?case
  proof (cases "n < 10")
    case True
    then show ?thesis
      by (simp add: digits_of.simps [of 10 n] digit_char_decimal decimal_def)
  next
    case False
    then have step: "digits_of 10 n = digits_of 10 (n div 10) @ [digit_char (n mod 10)]"
      by (subst digits_of.simps) simp
    have "n div 10 < n" using False by simp
    moreover have "10 * int (n div 10) + int (n mod 10) = int n"
      by (simp add: zdiv_int zmod_int)
    ultimately show ?thesis
      using less.IH [of "n div 10"] by (simp add: step decimal_snoc digit_char_decimal)
  qed
qed

section \<open>Range Calculator: the open-ended forms\<close>





section \<open>Range Calculator: validation\<close>

text \<open>
  Claim C1. The claim: whenever \<open>rangeHandler\<close> does not answer 416 the range satisfies
  \<open>0 \<le> start \<le> end < totalSize\<close>, and whenever \<open>start > end\<close> or a bound exceeds
  \<open>totalSize - 1\<close> the answer is 416 with an empty body and no stream. The test in
  \<open>rangeHandler\<close> compares the bounds with \<open>totalSize\<close>, where the last byte is at
  \<open>totalSize - 1\<close>: for \<open>Range: bytes=0-10\<close> on a file of 10 bytes it sets status 206, writes
  \<open>Content-Range: bytes 0-10/10\<close> and opens a stream that ends at offset 10.
\<close>

theorem rangeHandler_end_at_size:
  "rangeHandler ''/www/a.txt'' ''bytes=0-10'' 10 ServerResponse =
     Inr (Some (ReadStream ''/www/a.txt'' (Some (Num 0, Num 10))),
          \<lparr>statusCode = 206, headers = [''content-range'' \<mapsto> ''bytes 0-10/10''],
             body = None\<rparr>)"
  by (simp add: rangeHandler_def getRange_def match_here_def parseInt_def isDigit_def
      decimal_def digit_val_def setHeader_def lower_names ServerResponse_def toString_radix_def
      digits_of.simps digit_char_def)

text \<open>
  Claim C3. The claim: on a malformed \<open>Range\<close> value \<open>getRange\<close> returns a pair that the
  caller detects as missing, without failing, and \<open>rangeHandler\<close> never reaches its 206
  branch. For \<open>bytes=-\<close> both groups are empty, \<open>getRange\<close> returns \<open>NaN\<close> twice, every
  comparison of the validation is false, and \<open>rangeHandler\<close> sets status 206 and opens a stream
  from \<open>NaN\<close> to \<open>NaN\<close>. For a value the pattern does not match at all, \<open>getRange\<close> reads group 1
  of \<open>null\<close> and raises.
\<close>

theorem malformed_range_undetected:
  "getRange ''bytes=-'' 10 = Inr \<lparr>range_start = NaN, range_end = NaN\<rparr>
   \<and> rangeHandler ''/www/a.txt'' ''bytes=-'' 10 ServerResponse =
       Inr (Some (ReadStream ''/www/a.txt'' (Some (NaN, NaN))),
            \<lparr>statusCode = 206, headers = [''content-range'' \<mapsto> ''bytes NaN-NaN/10''],
               body = None\<rparr>)
   \<and> getRange ''items=0-5'' 10 = Inl TypeError
   \<and> rangeHandler ''/www/a.txt'' ''items=0-5'' 10 ServerResponse = Inl TypeError"
  by (simp add: rangeHandler_def getRange_def match_here_def parseInt_def isDigit_def
      decimal_def digit_val_def setHeader_def lower_names ServerResponse_def toString_radix_def
      digits_of.simps digit_char_def)

section \<open>Freshness Evaluator\<close>

text \<open>
  Claim C6, as amended. \<open>isFresh\<close> returns true if and only if at least one of
  \<open>If-None-Match\<close> and \<open>If-Modified-Since\<close> has a non-empty value, \<open>If-None-Match\<close> (when
  non-empty) is string-equal to the response's \<open>ETag\<close> header, and \<open>If-Modified-Since\<close> (when
  non-empty) is string-equal to the response's \<open>Last-Modified\<close> header. The tests of
  \<open>isFresh\<close> are truthiness tests, so a conditional header sent with an empty value counts as
  absent.
\<close>

theorem isFresh_iff:
  "isFresh reqHeaders resHeaders \<longleftrightarrow>
     (truthy (reqHeaders ''if-none-match'') \<or> truthy (reqHeaders ''if-modified-since''))
     \<and> (truthy (reqHeaders ''if-none-match'')
          \<longrightarrow> reqHeaders ''if-none-match'' = resHeaders ''etag'')
     \<and> (truthy (reqHeaders ''if-modified-since'')
          \<longrightarrow> reqHeaders ''if-modified-since'' = resHeaders ''last-modified'')"
  by (auto simp: isFresh_def Let_def)

text \<open>A request that repeats the entity tag is fresh, whatever the dates.\<close>

theorem isFresh_iff_witness:
  "isFresh [''if-none-match'' \<mapsto> ''W/120-16453239c00'']
           [''last-modified'' \<mapsto> ''Sun, 01 Jul 2018 00:00:00 GMT'',
            ''etag'' \<mapsto> ''W/120-16453239c00'']"
  using isFresh_iff [of "[''if-none-match'' \<mapsto> ''W/120-16453239c00'']"
      "[''last-modified'' \<mapsto> ''Sun, 01 Jul 2018 00:00:00 GMT'',
        ''etag'' \<mapsto> ''W/120-16453239c00'']"]
  by simp

text \<open>
  Claim C6 as stated, with "present" read as "the request has the header", fails: a request
  with an empty \<open>If-None-Match\<close> and a matching \<open>If-Modified-Since\<close> is fresh, although its
  \<open>If-None-Match\<close> is present and differs from the \<open>ETag\<close>.
\<close>

theorem isFresh_presence_counterexample:
  "\<not> (isFresh [''if-none-match'' \<mapsto> [],
                 ''if-modified-since'' \<mapsto> ''Sun, 01 Jul 2018 00:00:00 GMT'']
                [''last-modified'' \<mapsto> ''Sun, 01 Jul 2018 00:00:00 GMT'',
                 ''etag'' \<mapsto> ''W/120-16453239c00'']
        \<longleftrightarrow>
          ([''if-none-match'' \<mapsto> [],
            ''if-modified-since'' \<mapsto> ''Sun, 01 Jul 2018 00:00:00 GMT''] ''if-none-match''
             \<noteq> None
           \<or> [''if-none-match'' \<mapsto> [],
               ''if-modified-since'' \<mapsto> ''Sun, 01 Jul 2018 00:00:00 GMT'']
                ''if-modified-since'' \<noteq> None)
          \<and> ([''if-none-match'' \<mapsto> [],
               ''if-modified-since'' \<mapsto> ''Sun, 01 Jul 2018 00:00:00 GMT''] ''if-none-match''
                \<noteq> None
               \<longrightarrow> [''if-none-match'' \<mapsto> [],
                     ''if-modified-since'' \<mapsto> ''Sun, 01 Jul 2018 00:00:00 GMT'']
                      ''if-none-match''
                    = [''last-modified'' \<mapsto> ''Sun, 01 Jul 2018 00:00:00 GMT'',
                       ''etag'' \<mapsto> ''W/120-16453239c00''] ''etag'')
          \<and> ([''if-none-match'' \<mapsto> [],
               ''if-modified-since'' \<mapsto> ''Sun, 01 Jul 2018 00:00:00 GMT'']
                ''if-modified-since'' \<noteq> None
               \<longrightarrow> [''if-none-match'' \<mapsto> [],
                     ''if-modified-since'' \<mapsto> ''Sun, 01 Jul 2018 00:00:00 GMT'']
                      ''if-modified-since''
                    = [''last-modified'' \<mapsto> ''Sun, 01 Jul 2018 00:00:00 GMT'',
                       ''etag'' \<mapsto> ''W/120-16453239c00''] ''last-modified''))"
  by (simp add: isFresh_def)

lemma setFreshHeaders_other:
  assumes "k \<notin> {''last-modified'', ''cache-control'', ''etag'', ''expires''}"
  shows "headers (setFreshHeaders cfg nd stat res) k = headers res k"
  using assms by (auto simp: setFreshHeaders_def Let_def setHeader_def lower_names)

text \<open>
  Claim C7. For every request on an existing file whose conditional headers are judged
  fresh, \<open>respond\<close> first sets the freshness headers, then answers 304 with an empty body,
  and sets no \<open>Content-Type\<close> header: the response is the one \<open>setFreshHeaders\<close> left, with
  status 304 and ended without data, and its \<open>Content-Type\<close> is what it was before the call
  (none on the response the server created).
\<close>

theorem respond_fresh_304:
  assumes "fs_stat fs pathName = Some stat"
    and "isFresh (req_headers req) (headers (setFreshHeaders cfg nd stat res))"
  shows "respond cfg nd fs pathName req res =
           Inr ((setFreshHeaders cfg nd stat res)\<lparr>statusCode := 304, body := Some Empty\<rparr>)
         \<and> headers ((setFreshHeaders cfg nd stat res)\<lparr>statusCode := 304, body := Some Empty\<rparr>)
               ''content-type''
             = headers res ''content-type''"
  using assms
  by (simp add: respond_def respondNotModified_def end_response_def setFreshHeaders_other)

lemma sample_index_stat:
  "fs_stat sample_fs ''/www/index.html''
     = Some \<lparr>stat_size = 120, stat_mtime = 1530403200000, stat_isDirectory = False\<rparr>"
  by (simp add: sample_fs_def sample_files_def)

lemma sample_index_fresh_headers:
  "setFreshHeaders sample_server sample_node
     \<lparr>stat_size = 120, stat_mtime = 1530403200000, stat_isDirectory = False\<rparr> ServerResponse
   = \<lparr>statusCode = 200,
      headers = [''last-modified'' \<mapsto> ''Sun, 01 Jul 2018 00:00:00 GMT'',
                 ''cache-control'' \<mapsto> ''public, max-age=600'',
                 ''etag'' \<mapsto> ''W/'' @ [CHR 0x22] @ ''120-16453239c00'' @ [CHR 0x22],
                 ''expires'' \<mapsto> ''Sat, 03 Nov 2018 03:10:00 GMT''],
      body = None\<rparr>"
  by (simp add: setFreshHeaders_def sample_server_def sample_node_def sample_toUTCString_def
      generateETag_def toString_radix_def digits_of.simps digit_char_def setHeader_def
      lower_names ServerResponse_def)

text \<open>The index page of the sample installation, asked for again with its entity tag.\<close>

theorem respond_fresh_304_witness:
  "fs_stat sample_fs ''/www/index.html''
     = Some \<lparr>stat_size = 120, stat_mtime = 1530403200000, stat_isDirectory = False\<rparr>
   \<and> respond sample_server sample_node sample_fs ''/www/index.html''
         \<lparr>url = ''/index.html'',
            req_headers = [''if-none-match''
                             \<mapsto> ''W/'' @ [CHR 0x22] @ ''120-16453239c00'' @ [CHR 0x22]]\<rparr>
         ServerResponse
       = Inr \<lparr>statusCode = 304,
               headers = [''last-modified'' \<mapsto> ''Sun, 01 Jul 2018 00:00:00 GMT'',
                          ''cache-control'' \<mapsto> ''public, max-age=600'',
                          ''etag'' \<mapsto> ''W/'' @ [CHR 0x22] @ ''120-16453239c00'' @ [CHR 0x22],
                          ''expires'' \<mapsto> ''Sat, 03 Nov 2018 03:10:00 GMT''],
               body = Some Empty\<rparr>"
proof -
  let ?req = "\<lparr>url = ''/index.html'',
                req_headers = [''if-none-match''
                                 \<mapsto> ''W/'' @ [CHR 0x22] @ ''120-16453239c00'' @ [CHR 0x22]]\<rparr>"
  let ?stat = "\<lparr>stat_size = 120, stat_mtime = 1530403200000, stat_isDirectory = False\<rparr>"
  have fresh: "isFresh (req_headers ?req)
                 (headers (setFreshHeaders sample_server sample_node ?stat ServerResponse))"
    by (simp add: sample_index_fresh_headers isFresh_def)
  from respond_fresh_304 [OF sample_index_stat fresh] sample_index_stat show ?thesis
    by (simp add: sample_index_fresh_headers)
qed

section \<open>Content Transfer Engine: compression\<close>

lemma word_here_alt:
  "word_here [a, b] prev s \<longleftrightarrow> word_here [a] prev s \<or> word_here [b] prev s"
  by (auto simp: word_here_def)

lemma word_search_alt:
  "word_search [a, b] prev s \<longleftrightarrow> word_search [a] prev s \<or> word_search [b] prev s"
  by (induction s arbitrary: prev) (auto simp: word_here_alt)

lemma match_word_alt:
  "match_word [a, b] s \<longleftrightarrow> match_word [a] s \<or> match_word [b] s"
  by (simp add: match_word_def word_search_alt)

lemma match_word_empty: "\<not> match_word [''gzip''] []" "\<not> match_word [''deflate''] []"
  by (simp_all add: match_word_def word_here_def)

text \<open>The three branches of \<open>compressHandler\<close> cover every request: it always returns a
  stream.\<close>

lemma compressHandler_eq:
  "compressHandler rs req res =
     Inr (if offers ''gzip'' req then (Gzip rs, setHeader ''Content-Encoding'' ''gzip'' res)
          else if offers ''deflate'' req
          then (Deflate rs, setHeader ''Content-Encoding'' ''deflate'' res)
          else (rs, res))"
  by (auto simp: compressHandler_def offers_def match_word_alt match_word_empty
      split: option.splits)





section \<open>Path Router\<close>

lemma respondFile_no_range:
  assumes "\<not> truthy (req_headers req ''range'')"
  shows "respondFile cfg nd stat p req res =
     Inr (let res2 = setHeader ''Accept-Ranges'' ''bytes''
                       (setHeader ''Content-Type'' (mime_lookup nd p) res);
              rs = ReadStream p None
          in if shouldCompress cfg nd p then
               (if offers ''gzip'' req
                then pipe (Gzip rs) (setHeader ''Content-Encoding'' ''gzip'' res2)
                else if offers ''deflate'' req
                then pipe (Deflate rs) (setHeader ''Content-Encoding'' ''deflate'' res2)
                else pipe rs res2)
             else pipe rs res2)"
  using assms
  by (auto simp: respondFile_def Let_def compressHandler_eq split: option.splits)

lemma respondFile_null_stat_range:
  assumes "truthy (req_headers req ''range'')"
  shows "respondFile cfg nd None p req res = Inl TypeError"
  using assms by (cases "req_headers req ''range''") (simp_all add: respondFile_def)

text \<open>
  Claim C10. For every request routed to the SPA-fallback branch the freshness pipeline is
  bypassed: \<open>respondFile\<close> is invoked directly with a null stat on the root index page, so a
  response it produces carries no \<open>ETag\<close>, \<open>Last-Modified\<close>, \<open>Cache-Control\<close> or \<open>Expires\<close>
  header and is not a 304; and this presupposes a request without a \<open>Range\<close> header: without
  one a response is produced, with one the read of \<open>size\<close> from the null stat raises.
\<close>

theorem spa_fallback_skips_freshness:
  assumes "spa_fallback pathName"
  shows "routeHandler cfg nd fs pathName req res
           = respondFile cfg nd None (path_join nd (root cfg) (indexPage cfg)) req res
         \<and> (truthy (req_headers req ''range'')
              \<longrightarrow> routeHandler cfg nd fs pathName req res = Inl TypeError)
         \<and> (\<not> truthy (req_headers req ''range'')
              \<longrightarrow> (\<exists>r. routeHandler cfg nd fs pathName req res = Inr r))
         \<and> (\<forall>r. routeHandler cfg nd fs pathName req ServerResponse = Inr r
                \<longrightarrow> statusCode r \<noteq> 304 \<and> headers r ''etag'' = None
                    \<and> headers r ''last-modified'' = None
                    \<and> headers r ''cache-control'' = None \<and> headers r ''expires'' = None)"
proof -
  have route: "routeHandler cfg nd fs pathName req res'
                 = respondFile cfg nd None (path_join nd (root cfg) (indexPage cfg)) req res'"
    for res'
    using assms by (simp add: routeHandler_def spa_fallback_def)
  have served: "statusCode r \<noteq> 304 \<and> headers r ''etag'' = None
                  \<and> headers r ''last-modified'' = None
                  \<and> headers r ''cache-control'' = None \<and> headers r ''expires'' = None"
    if "routeHandler cfg nd fs pathName req ServerResponse = Inr r" for r
  proof (cases "truthy (req_headers req ''range'')")
    case True
    with that show ?thesis by (simp add: route respondFile_null_stat_range)
  next
    case False
    with that show ?thesis
      by (auto simp: route respondFile_no_range Let_def pipe_def setHeader_def lower_names
          ServerResponse_def split: if_splits)
  qed
  show ?thesis
    using served by (simp add: route respondFile_null_stat_range respondFile_no_range)
qed

lemma sample_article_path: "spa_fallback ''/www/article/42''"
  by (simp add: spa_fallback_def)

lemma sample_index_html:
  "path_join sample_node (root sample_server) (indexPage sample_server) = ''/www/index.html''"
  "mime_lookup sample_node ''/www/index.html'' = ''text/html''"
  "shouldCompress sample_server sample_node ''/www/index.html''"
  by (simp_all add: shouldCompress_def sample_server_def sample_node_def sample_extname_def
      split_pop_def mime_lookup_def mimeTypes_def)

text \<open>An article route of the sample installation: the index page is streamed with the
  two headers of \<open>respondFile\<close> and no others.\<close>

theorem spa_fallback_skips_freshness_witness:
  "spa_fallback ''/www/article/42''
   \<and> routeHandler sample_server sample_node sample_fs ''/www/article/42''
         \<lparr>url = ''/article/42'', req_headers = Map.empty\<rparr> ServerResponse
       = Inr \<lparr>statusCode = 200,
               headers = [''content-type'' \<mapsto> ''text/html'', ''accept-ranges'' \<mapsto> ''bytes''],
               body = Some (Piped (ReadStream ''/www/index.html'' None))\<rparr>"
proof -
  let ?req = "\<lparr>url = ''/article/42'', req_headers = Map.empty\<rparr>"
  have "respondFile sample_server sample_node None ''/www/index.html'' ?req ServerResponse
        = Inr \<lparr>statusCode = 200,
                headers = [''content-type'' \<mapsto> ''text/html'', ''accept-ranges'' \<mapsto> ''bytes''],
                body = Some (Piped (ReadStream ''/www/index.html'' None))\<rparr>"
    by (simp add: respondFile_no_range sample_index_html offers_def setHeader_def lower_names
        pipe_def ServerResponse_def)
  with spa_fallback_skips_freshness [OF sample_article_path,
      of sample_server sample_node sample_fs ?req ServerResponse]
    sample_article_path
  show ?thesis by (simp add: sample_index_html)
qed

text \<open>
  Claim C2. The claim: every request whose resolved path contains \<open>article/\<close> or \<open>homepage\<close>
  is served the root index page, for any combination of request headers. The router passes
  \<open>null\<close> for the stat, and \<open>respondFile\<close> reads \<open>stat.size\<close> as soon as the request has a
  \<open>Range\<close> header: on such a request the handler raises and nothing is served, whatever the
  configuration and the filesystem.
\<close>

theorem spa_fallback_range_raises:
  "routeHandler cfg nd fs ''/www/homepage''
     \<lparr>url = ''/homepage'', req_headers = [''range'' \<mapsto> ''bytes=0-99'']\<rparr> ServerResponse
   = Inl TypeError"
  by (simp add: routeHandler_def respondFile_def)


text \<open>The same at the server loop: the URL in the body is the rewritten one.\<close>

lemma start_not_found:
  assumes "pathName = path_join nd (root cfg) (path_normalize nd (rewrite_url (url req)))"
    and "\<not> spa_fallback pathName" and "fs_stat fs pathName = None"
  shows "start cfg nd fs req
           = Inr (respondNotFound (req\<lparr>url := rewrite_url (url req)\<rparr>) ServerResponse)"
  using assms by (simp add: start_def routeHandler_def spa_fallback_def)



section \<open>Server Loop: the redirect of a directory\<close>

text \<open>
  Claim C4, as amended. For every request whose resolved path is outside the SPA fallback
  and stats as a directory, while the pathname of the request URL lacks a trailing slash, the
  server answers 301 with a \<open>Location\<close> header equal to \<open>req.url\<close> plus \<open>/\<close>, where \<open>req.url\<close>
  is the URL as the server loop rewrote it: the original URL when \<open>static\<close> does not occur in
  it at a non-zero offset, and the URL cut to begin at \<open>static\<close> when it does.
\<close>

theorem redirect_location:
  assumes "pathName = path_join nd (root cfg) (path_normalize nd (rewrite_url (url req)))"
    and "\<not> spa_fallback pathName"
    and "fs_stat fs pathName = Some stat" and "stat_isDirectory stat"
    and "url_pathname nd (rewrite_url (url req)) = Some requestedPath"
    and "\<not> hasTrailingSlash requestedPath"
  shows "start cfg nd fs req
           = Inr (respondRedirect (req\<lparr>url := rewrite_url (url req)\<rparr>) ServerResponse)
         \<and> statusCode (respondRedirect (req\<lparr>url := rewrite_url (url req)\<rparr>) ServerResponse)
             = 301
         \<and> headers (respondRedirect (req\<lparr>url := rewrite_url (url req)\<rparr>) ServerResponse)
               ''location''
             = Some (rewrite_url (url req) @ ''/'')
         \<and> (indexOf (url req) ''static'' \<le> 0 \<longrightarrow> rewrite_url (url req) = url req)
         \<and> (indexOf (url req) ''static'' > 0
              \<longrightarrow> rewrite_url (url req) = drop (nat (indexOf (url req) ''static'')) (url req))"
  using assms
  by (simp add: start_def routeHandler_def spa_fallback_def respondRedirect_def writeHead_def
      end_response_def setHeader_def lower_names Let_def rewrite_url_def substring_def)

lemma sample_static_stat:
  "fs_stat sample_fs ''/www/static''
     = Some \<lparr>stat_size = 4096, stat_mtime = 1530403200000, stat_isDirectory = True\<rparr>"
  "stat_isDirectory \<lparr>stat_size = 4096, stat_mtime = 1530403200000, stat_isDirectory = True\<rparr>"
  "\<not> spa_fallback ''/www/static''"
  by (simp_all add: sample_fs_def sample_files_def spa_fallback_def)

lemma sample_static_url:
  "rewrite_url ''/static'' = ''static''"
  "rewrite_url ''/assets/static'' = ''static''"
  "path_join sample_node (root sample_server) (path_normalize sample_node ''static'')
     = ''/www/static''"
  "url_pathname sample_node ''static'' = Some ''static''"
  "\<not> hasTrailingSlash ''static''"
  by (simp_all add: rewrite_url_def substring_def sample_node_def sample_server_def
      sample_pathname_def hasTrailingSlash_def)

text \<open>\<open>GET /static\<close> on the sample installation, where \<open>/www/static\<close> is a directory.\<close>

theorem redirect_location_witness:
  "start sample_server sample_node sample_fs \<lparr>url = ''/static'', req_headers = Map.empty\<rparr>
     = Inr \<lparr>statusCode = 301,
             headers = [''location'' \<mapsto> ''static/'', ''content-type'' \<mapsto> ''text/html''],
             body = Some (Text (''Redirecting to <a href='' @ [CHR 0x27] @ ''static/''
                                @ [CHR 0x27] @ ''>static/</a>''))\<rparr>"
proof -
  let ?req = "\<lparr>url = ''/static'', req_headers = Map.empty\<rparr>"
  have h1: "''/www/static'' = path_join sample_node (root sample_server)
              (path_normalize sample_node (rewrite_url (url ?req)))"
    by (simp add: sample_static_url)
  have h5: "url_pathname sample_node (rewrite_url (url ?req)) = Some ''static''"
    by (simp add: sample_static_url)
  from redirect_location [OF h1 sample_static_stat(3) sample_static_stat(1)
      sample_static_stat(2) h5 sample_static_url(5)]
  show ?thesis
    by (simp add: sample_static_url respondRedirect_def writeHead_def end_response_def
        setHeader_def lower_names ServerResponse_def)
qed

text \<open>
  Claim C4 as stated fails where the rewrite applies: for \<open>GET /assets/static\<close> the
  \<open>Location\<close> header is \<open>static/\<close>, not the original URL plus \<open>/\<close>.
\<close>

theorem redirect_location_counterexample:
  "start sample_server sample_node sample_fs
     \<lparr>url = ''/assets/static'', req_headers = Map.empty\<rparr>
   = Inr \<lparr>statusCode = 301,
           headers = [''location'' \<mapsto> ''static/'', ''content-type'' \<mapsto> ''text/html''],
           body = Some (Text (''Redirecting to <a href='' @ [CHR 0x27] @ ''static/''
                              @ [CHR 0x27] @ ''>static/</a>''))\<rparr>
   \<and> ''static/'' \<noteq> ''/assets/static'' @ ''/''"
  by (simp add: start_def sample_static_url sample_static_stat routeHandler_def
      spa_fallback_def [symmetric] respondRedirect_def writeHead_def end_response_def
      setHeader_def lower_names ServerResponse_def)

end
